theory Spec2Isabelle
  imports Complex_Main
begin

section \<open>ATR-based risk control: the calculation core of main.py\<close>

text \<open>
  The development embeds the calculation code of \<^verbatim>\<open>src/main.py\<close>:
  \<^verbatim>\<open>compute_true_range\<close>, \<^verbatim>\<open>compute_atr\<close>, \<^verbatim>\<open>median_hitting_time_bm\<close>,
  \<^verbatim>\<open>App.bar_to_seconds\<close>, \<^verbatim>\<open>App.compute_stop_distance\<close> and the
  computing part of \<^verbatim>\<open>App.on_calculate\<close>.

  Conventions of the embedding.
  \<^item> A finite Python \<^verbatim>\<open>float\<close> is a \<^typ>\<open>real\<close>, and an operation on finite floats
    whose result is finite is the exact operation: the rounding of a result to
    the nearest double, and with it the rounding of a tiny result to zero, is
    outside the model, and so are the texts \<^verbatim>\<open>nan\<close> and \<^verbatim>\<open>inf\<close> in a form field.
  \<^item> In \<^verbatim>\<open>median_hitting_time_bm\<close>, which squares a quotient, leaving the range of
    a double is modelled: a quotient or a product beyond the range is an
    infinity, and the power \<^verbatim>\<open>**\<close> beyond the range raises \<^verbatim>\<open>OverflowError\<close>. Its
    result is a finite float, an infinity (\<^verbatim>\<open>float("inf")\<close> is the value the code
    itself builds) or NaN.
  \<^item> A Python \<^verbatim>\<open>int\<close> is an \<^typ>\<open>int\<close>.
  \<^item> Every \<^verbatim>\<open>raise\<close> is a value \<open>Inl e\<close> of a sum type; the exceptions Python
    raises by itself on a path of the code (division by zero, an index out of
    range, \<^verbatim>\<open>float()\<close> or \<^verbatim>\<open>int()\<close> of a text that is no number) are errors too.
  \<^item> The Tk variables read by the handlers are a record; the two network
    fetches are inputs.
\<close>

subsection \<open>Data\<close>

text \<open>A candle as \<^verbatim>\<open>fetch_okx_candles\<close> builds it (a dict with these five keys).\<close>

record candle =
  ts :: int
  open' :: real
  high :: real
  low :: real
  close :: real

text \<open>
  The errors of the calculation. The code raises \<^verbatim>\<open>ValueError\<close> with a message at
  each of its own checks; the constructor names the check:
  \<^item> \<open>InsufficientData\<close>: too few candles for the ATR (\<^verbatim>\<open>compute_atr\<close> line 101,
    \<^verbatim>\<open>on_calculate\<close> line 353);
  \<^item> \<open>InvalidStop\<close>: stop percentage not above 0 (line 261), or stop distance
    from the level not above 0 (line 274);
  \<^item> \<open>MissingStopInput\<close>: neither stop percentage nor stop level (line 266);
  \<^item> \<open>InvalidNotional\<close>: opening amount not above 0 (line 336);
  \<^item> \<open>NoCandles\<close>: the feed returned no candle (line 348);
  \<^item> \<open>NoDexHistory\<close>: DEX mode without a custom ATR (line 367);
  \<^item> \<open>ParseError\<close>: the \<^verbatim>\<open>ValueError\<close> of \<^verbatim>\<open>float()\<close> or \<^verbatim>\<open>int()\<close>;
  \<^item> \<open>ZeroDivisionError\<close>, \<open>IndexError\<close>, \<open>OverflowError\<close>: Python's own;
  \<^item> \<open>FeedError\<close>: a network fetch raised.
\<close>

datatype error =
    InsufficientData
  | InvalidStop
  | MissingStopInput
  | InvalidNotional
  | NoCandles
  | NoDexHistory
  | ParseError
  | ZeroDivisionError
  | IndexError
  | OverflowError
  | FeedError

text \<open>The value of \<^verbatim>\<open>median_hitting_time_bm\<close>: a finite float, an infinity or NaN.\<close>

datatype pyfloat = Finite real | PosInf | NegInf | NaN

subsection \<open>Python list slicing\<close>

text \<open>
  \<^verbatim>\<open>xs[a:b]\<close>: a negative bound counts from the end, and every bound is clamped
  to \<open>0..len(xs)\<close>; the slice is empty when the lower bound is not below the upper.
\<close>

definition slice_bound :: "int \<Rightarrow> nat \<Rightarrow> nat" where
  "slice_bound k n = (if k < 0 then nat (max (k + int n) 0) else min (nat k) n)"

definition py_slice :: "'a list \<Rightarrow> int \<Rightarrow> int \<Rightarrow> 'a list" where
  "py_slice xs a b =
     (let lo = slice_bound a (length xs); hi = slice_bound b (length xs)
      in take (hi - lo) (drop lo xs))"

subsection \<open>Volatility: true range and ATR\<close>

definition compute_true_range :: "real \<Rightarrow> real \<Rightarrow> real \<Rightarrow> real" where
  "compute_true_range prev_close h l = max (h - l) (max \<bar>h - prev_close\<bar> \<bar>l - prev_close\<bar>)"

text \<open>The first loop of \<^verbatim>\<open>compute_atr\<close>: \<^verbatim>\<open>trs\<close>, one true range for each \<open>i\<close> in \<open>1..len-1\<close>.\<close>

definition true_ranges :: "candle list \<Rightarrow> real list" where
  "true_ranges candles =
     map (\<lambda>i. compute_true_range (close (candles ! (i - 1))) (high (candles ! i)) (low (candles ! i)))
       [1 ..< length candles]"

text \<open>
  \<^verbatim>\<open>compute_atr\<close>. The second loop runs \<open>i\<close> over \<^verbatim>\<open>range(period - 1, len(trs))\<close> and
  divides by \<^verbatim>\<open>period\<close> in each round, so it raises \<^verbatim>\<open>ZeroDivisionError\<close> in its
  first round when \<^verbatim>\<open>period\<close> is 0; \<^verbatim>\<open>atr_values[-1]\<close> raises \<^verbatim>\<open>IndexError\<close> on an
  empty list.
\<close>

definition compute_atr :: "candle list \<Rightarrow> int \<Rightarrow> error + real" where
  "compute_atr candles period =
     (if int (length candles) < period + 1 then Inl InsufficientData
      else
        let trs = true_ranges candles;
            rounds = [period - 1 .. int (length trs) - 1]
        in if period = 0 \<and> rounds \<noteq> [] then Inl ZeroDivisionError
           else
             let atr_values =
                   map (\<lambda>i. sum_list (py_slice trs (i - (period - 1)) (i + 1)) / real_of_int period) rounds
             in if atr_values = [] then Inl IndexError else Inr (last atr_values))"

subsection \<open>Hitting time\<close>

text \<open>
  The range of a double. The largest double is \<open>2 ^ 1024 - 2 ^ 971\<close>; an exact
  result of magnitude \<open>2 ^ 1024 - 2 ^ 970\<close> or more, half a unit in the last place
  beyond it, rounds to an infinity.
\<close>

definition double_overflow :: real where
  "double_overflow = 2 ^ 1024 - 2 ^ 970"

text \<open>
  The product of two floats: an infinity by the sign of the factors, times zero
  NaN; of finite floats the exact product, or an infinity when it leaves the range.
  Float multiplication raises nothing.
\<close>

fun float_mul :: "pyfloat \<Rightarrow> real \<Rightarrow> pyfloat" where
  "float_mul (Finite x) y =
     (if double_overflow \<le> \<bar>x * y\<bar> then (if 0 < x * y then PosInf else NegInf)
      else Finite (x * y))"
| "float_mul PosInf y = (if 0 < y then PosInf else if y < 0 then NegInf else NaN)"
| "float_mul NegInf y = (if 0 < y then NegInf else if y < 0 then PosInf else NaN)"
| "float_mul NaN y = NaN"

text \<open>
  \<^verbatim>\<open>median_hitting_time_bm\<close>. After the guard \<^verbatim>\<open>sigma\<close> is positive, so the division
  raises nothing; a quotient beyond the range is an infinity, whose square is
  \<^verbatim>\<open>inf\<close> without an error. The square of a finite quotient raises
  \<^verbatim>\<open>OverflowError\<close> when it leaves the range (line 126). Halving cannot leave the
  range; the last product (line 127) can, and is then an infinity.
\<close>

definition median_hitting_time_bm :: "real \<Rightarrow> real \<Rightarrow> real \<Rightarrow> error + pyfloat" where
  "median_hitting_time_bm sigma barrier_abs dt_seconds =
     (if sigma \<le> 0 then Inr PosInf
      else
        let ratio = barrier_abs / sigma
        in if double_overflow \<le> \<bar>ratio\<bar> then Inr (float_mul PosInf dt_seconds)
           else if double_overflow \<le> ratio ^ 2 then Inl OverflowError
           else let steps = 0.5 * ratio ^ 2 in Inr (float_mul (Finite steps) dt_seconds))"

subsection \<open>The form and the handlers\<close>

text \<open>
  A text field after \<^verbatim>\<open>.get().strip()\<close> and the conversion the code applies to it:
  empty, a number (the text converts to a finite float, or to an int), or a text
  that \<^verbatim>\<open>float()\<close> (\<^verbatim>\<open>int()\<close>) rejects.
\<close>

datatype 'a entry = Blank | Parsed 'a | Malformed

text \<open>
  The two read-only combo boxes: the direction (\<open>Long\<close> is the first value, the
  one line 269 compares with) and the mode (\<open>CEX\<close> is the value line 341 compares with).
\<close>

datatype side = Long | Short

datatype mode = CEX | DEX

record form =
  mode_var :: mode
  bar_var :: string
  atr_n_var :: "int entry"
  open_notional_var :: "real entry"
  custom_atr_var :: "real entry"
  stop_pct_var :: "real entry"
  stop_level_var :: "real entry"
  side_var :: side

text \<open>
  The network: \<^verbatim>\<open>fetch_okx_candles(inst, bar, limit)\<close> as a function of the limit,
  and the price of \<^verbatim>\<open>fetch_dex_price_by_token\<close>; \<open>None\<close> when the fetch raises.
\<close>

record feeds =
  okx_candles :: "int \<Rightarrow> candle list option"
  dex_price :: "real option"

definition bar_to_seconds :: "string \<Rightarrow> int" where
  "bar_to_seconds bar =
     (if bar = ''1m'' then 60
      else if bar = ''5m'' then 5 * 60
      else if bar = ''15m'' then 15 * 60
      else if bar = ''1H'' then 60 * 60
      else if bar = ''4H'' then 4 * 60 * 60
      else if bar = ''1D'' then 24 * 60 * 60
      else 60 * 60)"

text \<open>
  \<^verbatim>\<open>compute_stop_distance\<close>. The percentage branch checks the percentage read
  (line 260) and returns the product of line 262 unchecked; the level branch
  checks the distance it computed (line 273).
\<close>

definition compute_stop_distance :: "form \<Rightarrow> real \<Rightarrow> error + real \<times> real" where
  "compute_stop_distance self last_close =
     (case stop_pct_var self of
        Malformed \<Rightarrow> Inl ParseError
      | Parsed pct \<Rightarrow>
          if pct \<le> 0 then Inl InvalidStop
          else Inr (last_close * (pct / 100), pct)
      | Blank \<Rightarrow>
          (case stop_level_var self of
             Blank \<Rightarrow> Inl MissingStopInput
           | Malformed \<Rightarrow> Inl ParseError
           | Parsed stop_level \<Rightarrow>
               let dist' = (case side_var self of
                             Long \<Rightarrow> max 0 (last_close - stop_level)
                           | Short \<Rightarrow> max 0 (stop_level - last_close))
               in if dist' \<le> 0 then Inl InvalidStop
                  else if last_close = 0 then Inl ZeroDivisionError
                  else Inr (dist', (dist' / last_close) * 100)))"

text \<open>
  Lines 341 to 367 of \<^verbatim>\<open>on_calculate\<close>: the ATR value and the last price, by mode
  and by whether a custom ATR is given.
\<close>

definition last_candle_close :: "candle list \<Rightarrow> error + real" where
  "last_candle_close candles = (if candles = [] then Inl IndexError else Inr (close (last candles)))"

definition atr_and_price :: "form \<Rightarrow> feeds \<Rightarrow> int \<Rightarrow> error + real \<times> real" where
  "atr_and_price self net atr_n =
     (case mode_var self of
        CEX \<Rightarrow>
          (case custom_atr_var self of
             Malformed \<Rightarrow> Inl ParseError
           | Parsed atr_value \<Rightarrow>
               (case okx_candles net (max (atr_n + 2) 50) of
                  None \<Rightarrow> Inl FeedError
                | Some candles \<Rightarrow>
                    if candles = [] then Inl NoCandles
                    else Inr (atr_value, close (last candles)))
           | Blank \<Rightarrow>
               (case okx_candles net (max (atr_n + 50) 100) of
                  None \<Rightarrow> Inl FeedError
                | Some candles \<Rightarrow>
                    if int (length candles) < atr_n + 1 then Inl InsufficientData
                    else
                      (case compute_atr candles atr_n of
                         Inl e \<Rightarrow> Inl e
                       | Inr atr_value \<Rightarrow>
                           (case last_candle_close candles of
                              Inl e \<Rightarrow> Inl e
                            | Inr c \<Rightarrow> Inr (atr_value, c)))))
      | DEX \<Rightarrow>
          (case dex_price net of
             None \<Rightarrow> Inl FeedError
           | Some price_usd \<Rightarrow>
               (case custom_atr_var self of
                  Malformed \<Rightarrow> Inl ParseError
                | Parsed atr_value \<Rightarrow> Inr (atr_value, price_usd)
                | Blank \<Rightarrow> Inl NoDexHistory)))"

text \<open>
  What \<^verbatim>\<open>on_calculate\<close> computes (lines 369 to 377) before it formats the values
  for display.
\<close>

record risk_result =
  last_close :: real
  atr_value :: real
  stop_abs :: real
  stop_pct :: real
  position_base :: real
  loss_quote :: real
  median_seconds :: pyfloat

definition on_calculate :: "form \<Rightarrow> feeds \<Rightarrow> error + risk_result" where
  "on_calculate self net =
     (case atr_n_var self of
        Parsed atr_n \<Rightarrow>
          (case open_notional_var self of
             Parsed open_notional \<Rightarrow>
               if open_notional \<le> 0 then Inl InvalidNotional
               else
                 (case atr_and_price self net atr_n of
                    Inl e \<Rightarrow> Inl e
                  | Inr (atr, price) \<Rightarrow>
                      (case compute_stop_distance self price of
                         Inl e \<Rightarrow> Inl e
                       | Inr (dist', pct) \<Rightarrow>
                           if price = 0 then Inl ZeroDivisionError
                           else
                             let position = open_notional / price;
                                 loss = position * dist';
                                 dt_seconds = bar_to_seconds (bar_var self)
                             in (case median_hitting_time_bm atr dist' (real_of_int dt_seconds) of
                                   Inl e \<Rightarrow> Inl e
                                 | Inr seconds \<Rightarrow>
                                     Inr \<lparr>last_close = price, atr_value = atr,
                                          stop_abs = dist', stop_pct = pct,
                                          position_base = position, loss_quote = loss,
                                          median_seconds = seconds\<rparr>)))
           | _ \<Rightarrow> Inl ParseError)
      | _ \<Rightarrow> Inl ParseError)"

subsection \<open>The specification's formulas\<close>

text \<open>
  The true range of candle \<open>i\<close> (for \<open>i \<ge> 1\<close>) and the plain mean of the last \<open>p\<close>
  true ranges of a series, as the specification words them; \<open>compute_atr\<close> is
  compared with these below.
\<close>

definition true_range_at :: "candle list \<Rightarrow> nat \<Rightarrow> real" where
  "true_range_at cs i =
     max (high (cs ! i) - low (cs ! i))
       (max \<bar>high (cs ! i) - close (cs ! (i - 1))\<bar> \<bar>low (cs ! i) - close (cs ! (i - 1))\<bar>)"

definition trailing_mean_atr :: "candle list \<Rightarrow> nat \<Rightarrow> real" where
  "trailing_mean_atr cs p =
     sum_list (map (true_range_at cs) [length cs - p ..< length cs]) / real p"

text \<open>The distance of a level stop by direction, as the specification words it.\<close>

definition level_distance :: "side \<Rightarrow> real \<Rightarrow> real \<Rightarrow> real" where
  "level_distance s price lvl =
     (case s of Long \<Rightarrow> max 0 (price - lvl) | Short \<Rightarrow> max 0 (lvl - price))"

subsection \<open>Sample inputs\<close>

text \<open>
  A candle with the given high, low and close; the form as the program starts
  (CEX, hourly bars, ATR period 14, amount 100, long) with a custom ATR of 1 and
  a stop of 5 percent; a network whose candle feed answers every limit with the
  same series and that has no DEX quote.
\<close>

definition example_candle :: "real \<Rightarrow> real \<Rightarrow> real \<Rightarrow> candle" where
  "example_candle h l c = \<lparr>ts = 0, open' = c, high = h, low = l, close = c\<rparr>"

definition example_form :: form where
  "example_form =
     \<lparr>mode_var = CEX, bar_var = ''1H'', atr_n_var = Parsed 14,
      open_notional_var = Parsed 100, custom_atr_var = Parsed 1, stop_pct_var = Parsed 5,
      stop_level_var = Blank, side_var = Long\<rparr>"

definition example_feeds :: "candle list \<Rightarrow> feeds" where
  "example_feeds cs = \<lparr>okx_candles = (\<lambda>limit. Some cs), dex_price = None\<rparr>"

lemmas eval_defs =
  on_calculate_def atr_and_price_def compute_stop_distance_def example_form_def
  example_feeds_def example_candle_def median_hitting_time_bm_def double_overflow_def
  bar_to_seconds_def Let_def

section \<open>The ATR\<close>

lemma compute_atr_short:
  "int (length candles) < period + 1 \<Longrightarrow> compute_atr candles period = Inl InsufficientData"
  by (simp add: compute_atr_def)

lemma upto_nonempty: "i \<le> j \<Longrightarrow> [i .. j] \<noteq> []"
  by (simp add: upto.simps)

lemma last_upto_le: "i \<le> j \<Longrightarrow> last [i .. j] = j"
  by (simp add: upto_rec2)

lemma true_ranges_eq: "true_ranges cs = map (true_range_at cs) [1 ..< length cs]"
  by (simp add: true_ranges_def true_range_at_def compute_true_range_def)

lemma length_true_ranges: "length (true_ranges cs) = length cs - 1"
  by (simp add: true_ranges_def)

lemma compute_atr_enough:
  assumes "1 \<le> period" and "period + 1 \<le> int (length candles)"
  shows "\<exists>v. compute_atr candles period = Inr v"
proof -
  have "[period - 1 .. int (length (true_ranges candles)) - 1] \<noteq> []"
    using assms by (intro upto_nonempty) (simp add: true_ranges_def)
  with assms show ?thesis
    by (simp add: compute_atr_def Let_def)
qed

text \<open>The window of the last round of the second loop is the last \<open>p\<close> true ranges.\<close>

lemma last_window:
  assumes "1 \<le> p" and "p + 1 \<le> int (length cs)"
  shows "py_slice (true_ranges cs) (int (length (true_ranges cs)) - 1 - (p - 1))
           (int (length (true_ranges cs)) - 1 + 1)
         = map (true_range_at cs) [length cs - nat p ..< length cs]"
proof -
  let ?n = "length cs"
  have lo: "slice_bound (int (?n - 1) - 1 - (p - 1)) (?n - 1) = ?n - 1 - nat p"
    using assms by (auto simp: slice_bound_def)
  have hi: "slice_bound (int (?n - 1) - 1 + 1) (?n - 1) = ?n - 1"
    using assms by (auto simp: slice_bound_def)
  have "py_slice (true_ranges cs) (int (?n - 1) - 1 - (p - 1)) (int (?n - 1) - 1 + 1)
        = drop (?n - 1 - nat p) (true_ranges cs)"
    unfolding py_slice_def Let_def length_true_ranges lo hi
    by (simp add: length_true_ranges)
  also have "\<dots> = map (true_range_at cs) [1 + (?n - 1 - nat p) ..< ?n]"
    by (simp add: true_ranges_eq drop_map)
  also have "1 + (?n - 1 - nat p) = ?n - nat p"
    using assms by linarith
  finally show ?thesis by (simp add: length_true_ranges)
qed

text \<open>
  Claim C1. For a period of at least 1 and a series of at least \<open>period + 1\<close>
  candles, \<open>compute_atr\<close> returns the arithmetic mean of the last \<open>period\<close> true
  ranges, those of the candles up to the most recent one, where the true range of
  candle \<open>i\<close> is the largest of high minus low, the distance of the high from the
  previous close and the distance of the low from the previous close.
\<close>

theorem compute_atr_is_trailing_mean:
  assumes "1 \<le> period" and "period + 1 \<le> int (length cs)"
  shows "compute_atr cs period = Inr (trailing_mean_atr cs (nat period))"
proof -
  let ?trs = "true_ranges cs"
  let ?hi = "int (length ?trs) - 1"
  have le: "period - 1 \<le> ?hi"
    using assms by (simp add: length_true_ranges)
  then have ne: "[period - 1 .. ?hi] \<noteq> []"
    by (rule upto_nonempty)
  have "compute_atr cs period =
        Inr (last (map (\<lambda>i. sum_list (py_slice ?trs (i - (period - 1)) (i + 1)) / real_of_int period)
                    [period - 1 .. ?hi]))"
    using assms ne by (simp add: compute_atr_def Let_def)
  also have "last (map (\<lambda>i. sum_list (py_slice ?trs (i - (period - 1)) (i + 1)) / real_of_int period)
                    [period - 1 .. ?hi])
             = sum_list (py_slice ?trs (?hi - (period - 1)) (?hi + 1)) / real_of_int period"
    using ne le by (simp add: last_map last_upto_le)
  also have "py_slice ?trs (?hi - (period - 1)) (?hi + 1)
             = map (true_range_at cs) [length cs - nat period ..< length cs]"
    using last_window [OF assms] .
  finally show ?thesis
    using assms by (simp add: trailing_mean_atr_def)
qed

text \<open>
  Four candles with true ranges 2, 5 and 1: the ATR of period 2 is \<open>(5 + 1) / 2\<close>.
\<close>

theorem compute_atr_is_trailing_mean_witness:
  "compute_atr
     [example_candle 10 8 9, example_candle 11 9 10, example_candle 12 7 8, example_candle 9 8 9] 2
   = Inr 3"
  using compute_atr_is_trailing_mean
    [of 2 "[example_candle 10 8 9, example_candle 11 9 10, example_candle 12 7 8, example_candle 9 8 9]"]
  by (simp add: trailing_mean_atr_def true_range_at_def example_candle_def upt_rec)

text \<open>
  Claim C6. For a period \<open>p\<close> of at least 1, \<open>compute_atr\<close> fails with
  \<open>InsufficientData\<close> on every series shorter than \<open>p + 1\<close>, and on a series of
  at least \<open>p + 1\<close> candles it does not fail with \<open>InsufficientData\<close>.
\<close>

theorem insufficient_data_iff:
  assumes "1 \<le> p"
  shows "(int (length cs) < p + 1 \<longrightarrow> compute_atr cs p = Inl InsufficientData)
       \<and> (p + 1 \<le> int (length cs) \<longrightarrow> compute_atr cs p \<noteq> Inl InsufficientData)"
proof (intro conjI impI)
  assume "int (length cs) < p + 1"
  then show "compute_atr cs p = Inl InsufficientData" by (rule compute_atr_short)
next
  assume "p + 1 \<le> int (length cs)"
  with assms obtain v where "compute_atr cs p = Inr v"
    using compute_atr_enough by blast
  then show "compute_atr cs p \<noteq> Inl InsufficientData" by simp
qed

theorem insufficient_data_iff_witness:
  "compute_atr [example_candle 10 8 9, example_candle 11 9 10] 2 = Inl InsufficientData
   \<and> compute_atr [example_candle 10 8 9, example_candle 11 9 10, example_candle 12 7 8] 2
       \<noteq> Inl InsufficientData"
  using insufficient_data_iff [of 2 "[example_candle 10 8 9, example_candle 11 9 10]"]
    insufficient_data_iff
      [of 2 "[example_candle 10 8 9, example_candle 11 9 10, example_candle 12 7 8]"]
  by simp

section \<open>The hitting time\<close>






section \<open>The stop distance\<close>

text \<open>
  Claim C3. With a positive last price, no stop percentage and a stop level, the
  distance is \<open>max 0 (price - level)\<close> for a long position and
  \<open>max 0 (level - price)\<close> for a short one; \<open>compute_stop_distance\<close> fails with
  \<open>InvalidStop\<close> exactly when that distance is not positive, and otherwise returns
  the distance with the percentage \<open>distance / price * 100\<close>.
\<close>

theorem level_stop_distance:
  assumes "0 < price" and "stop_pct_var f = Blank" and "stop_level_var f = Parsed lvl"
  shows "(side_var f = Long \<longrightarrow> level_distance (side_var f) price lvl = max 0 (price - lvl))
       \<and> (side_var f = Short \<longrightarrow> level_distance (side_var f) price lvl = max 0 (lvl - price))
       \<and> (compute_stop_distance f price = Inl InvalidStop
            \<longleftrightarrow> level_distance (side_var f) price lvl \<le> 0)
       \<and> (0 < level_distance (side_var f) price lvl \<longrightarrow>
            compute_stop_distance f price
              = Inr (level_distance (side_var f) price lvl,
                     level_distance (side_var f) price lvl / price * 100))"
  using assms by (simp add: compute_stop_distance_def level_distance_def Let_def)

text \<open>A level of 95 at a price of 100: 5 and 5 percent when long, invalid when short.\<close>

theorem level_stop_distance_witness:
  "compute_stop_distance (example_form\<lparr>stop_pct_var := Blank, stop_level_var := Parsed 95\<rparr>) 100
     = Inr (5, 5)
   \<and> compute_stop_distance
        (example_form\<lparr>stop_pct_var := Blank, stop_level_var := Parsed 95, side_var := Short\<rparr>) 100
     = Inl InvalidStop"
  using level_stop_distance
      [of 100 "example_form\<lparr>stop_pct_var := Blank, stop_level_var := Parsed 95\<rparr>" 95]
    level_stop_distance
      [of 100 "example_form\<lparr>stop_pct_var := Blank, stop_level_var := Parsed 95, side_var := Short\<rparr>" 95]
  by (simp add: example_form_def level_distance_def)

text \<open>
  Claim C4. With a stop percentage \<open>v\<close>, \<open>compute_stop_distance\<close> fails with
  \<open>InvalidStop\<close> when \<open>v\<close> is not positive, and otherwise returns the distance
  \<open>price * v / 100\<close> and the percentage \<open>v\<close>, for every last price.
\<close>

theorem percentage_stop_distance:
  assumes "stop_pct_var f = Parsed v"
  shows "(v \<le> 0 \<longrightarrow> compute_stop_distance f price = Inl InvalidStop)
       \<and> (0 < v \<longrightarrow> compute_stop_distance f price = Inr (price * v / 100, v))"
  using assms by (simp add: compute_stop_distance_def)

theorem percentage_stop_distance_witness:
  "compute_stop_distance (example_form\<lparr>stop_pct_var := Parsed 10\<rparr>) 100 = Inr (10, 10)
   \<and> compute_stop_distance (example_form\<lparr>stop_pct_var := Parsed 0\<rparr>) 100 = Inl InvalidStop"
  using percentage_stop_distance [of "example_form\<lparr>stop_pct_var := Parsed 10\<rparr>" 10 100]
    percentage_stop_distance [of "example_form\<lparr>stop_pct_var := Parsed 0\<rparr>" 0 100]
  by simp

text \<open>
  Claim C5. When a stop percentage is given, \<open>compute_stop_distance\<close> applies the
  percentage rule, and its result is the same whatever the stop level and the
  direction are: the level is read only when the percentage field is empty.
  When both fields are empty it fails with \<open>MissingStopInput\<close>; no default stop
  is substituted.
\<close>

theorem percentage_takes_precedence:
  "(stop_pct_var f = Parsed v \<longrightarrow>
      compute_stop_distance f price
        = (if v \<le> 0 then Inl InvalidStop else Inr (price * (v / 100), v)))
   \<and> (stop_pct_var f \<noteq> Blank \<longrightarrow>
        compute_stop_distance (f\<lparr>stop_level_var := lv, side_var := s\<rparr>) price
          = compute_stop_distance f price)
   \<and> (stop_pct_var f = Blank \<and> stop_level_var f = Blank \<longrightarrow>
        compute_stop_distance f price = Inl MissingStopInput)"
  by (simp add: compute_stop_distance_def split: entry.splits)

theorem percentage_takes_precedence_witness:
  "compute_stop_distance
     (example_form\<lparr>stop_pct_var := Parsed 10, stop_level_var := Parsed 95\<rparr>) 100
     = Inr (10, 10)
   \<and> compute_stop_distance
       (example_form\<lparr>stop_pct_var := Parsed 10, stop_level_var := Parsed 95, side_var := Short\<rparr>) 100
     = compute_stop_distance (example_form\<lparr>stop_pct_var := Parsed 10\<rparr>) 100
   \<and> compute_stop_distance (example_form\<lparr>stop_pct_var := Blank\<rparr>) 100 = Inl MissingStopInput"
  using percentage_takes_precedence
      [where f = "example_form\<lparr>stop_pct_var := Parsed 10, stop_level_var := Parsed 95\<rparr>"
         and v = 10 and price = 100]
    percentage_takes_precedence
      [where f = "example_form\<lparr>stop_pct_var := Parsed 10\<rparr>"
         and lv = "Parsed 95" and s = Short and price = 100]
    percentage_takes_precedence
      [where f = "example_form\<lparr>stop_pct_var := Blank\<rparr>" and price = 100]
  by (simp add: example_form_def)

section \<open>The calculation\<close>

text \<open>What a successful run of \<open>on_calculate\<close> went through.\<close>

lemma on_calculate_Inr:
  assumes "on_calculate f net = Inr r"
  obtains n notional where "atr_n_var f = Parsed n" and "open_notional_var f = Parsed notional"
    and "0 < notional"
    and "atr_and_price f net n = Inr (atr_value r, last_close r)"
    and "compute_stop_distance f (last_close r) = Inr (stop_abs r, stop_pct r)"
    and "last_close r \<noteq> 0"
    and "position_base r = notional / last_close r"
    and "loss_quote r = position_base r * stop_abs r"
    and "median_hitting_time_bm (atr_value r) (stop_abs r)
           (real_of_int (bar_to_seconds (bar_var f))) = Inr (median_seconds r)"
  using assms
  by (auto simp: on_calculate_def Let_def split: entry.splits if_splits sum.splits prod.splits)

lemma compute_stop_distance_not_notional:
  "compute_stop_distance f price \<noteq> Inl InvalidNotional"
  by (simp add: compute_stop_distance_def Let_def split: entry.splits side.splits)

lemma compute_stop_distance_not_insufficient:
  "compute_stop_distance f price \<noteq> Inl InsufficientData"
  by (simp add: compute_stop_distance_def Let_def split: entry.splits side.splits)

lemma compute_atr_errors:
  "compute_atr cs n = Inl e \<Longrightarrow> e \<in> {InsufficientData, ZeroDivisionError, IndexError}"
  by (auto simp: compute_atr_def Let_def split: if_splits)

lemma median_hitting_time_errors:
  "median_hitting_time_bm sigma b dt = Inl e \<Longrightarrow> e = OverflowError"
  by (auto simp: median_hitting_time_bm_def Let_def split: if_splits)

lemma atr_and_price_not_notional:
  "atr_and_price f net n \<noteq> Inl InvalidNotional"
  by (auto simp: atr_and_price_def last_candle_close_def
      split: mode.splits entry.splits option.splits sum.splits if_splits
      dest!: compute_atr_errors)

text \<open>
  Claim C7. With the period and the amount read from the form, \<open>on_calculate\<close>
  fails with \<open>InvalidNotional\<close> exactly when the amount is not positive; and for a
  positive amount, a positive last price and a resolved stop distance, in a run
  whose later hitting-time step raises nothing, it returns the position
  \<open>amount / price\<close> and the loss \<open>position * distance\<close>, as exact quotient and
  product.
\<close>

theorem loss_sizing:
  assumes "atr_n_var f = Parsed n" and "open_notional_var f = Parsed notional"
  shows "(on_calculate f net = Inl InvalidNotional \<longleftrightarrow> notional \<le> 0)
       \<and> (0 < notional \<and> 0 < price \<and> atr_and_price f net n = Inr (a, price)
            \<and> compute_stop_distance f price = Inr (d, pc)
            \<and> median_hitting_time_bm a d (real_of_int (bar_to_seconds (bar_var f))) = Inr t \<longrightarrow>
          (\<exists>r. on_calculate f net = Inr r \<and> last_close r = price \<and> stop_abs r = d
               \<and> position_base r = notional / price
               \<and> loss_quote r = notional / price * d))"
proof (intro conjI impI)
  show "on_calculate f net = Inl InvalidNotional \<longleftrightarrow> notional \<le> 0"
    using assms compute_stop_distance_not_notional atr_and_price_not_notional [of f net n]
    by (auto simp: on_calculate_def Let_def split: sum.splits prod.splits
        dest: median_hitting_time_errors)
next
  assume "0 < notional \<and> 0 < price \<and> atr_and_price f net n = Inr (a, price)
            \<and> compute_stop_distance f price = Inr (d, pc)
            \<and> median_hitting_time_bm a d (real_of_int (bar_to_seconds (bar_var f))) = Inr t"
  with assms show "\<exists>r. on_calculate f net = Inr r \<and> last_close r = price \<and> stop_abs r = d
               \<and> position_base r = notional / price
               \<and> loss_quote r = notional / price * d"
    by (simp add: on_calculate_def Let_def)
qed

text \<open>An amount of 100 at a price of 50 with a distance of 2: position 2, loss 4.\<close>

theorem loss_sizing_witness:
  "(\<exists>r. on_calculate (example_form\<lparr>stop_pct_var := Parsed 4\<rparr>)
            (example_feeds [example_candle 51 49 50]) = Inr r
        \<and> last_close r = 50 \<and> stop_abs r = 2 \<and> position_base r = 2 \<and> loss_quote r = 4)
   \<and> on_calculate (example_form\<lparr>open_notional_var := Parsed 0\<rparr>)
        (example_feeds [example_candle 51 49 50]) = Inl InvalidNotional"
proof -
  let ?f = "example_form\<lparr>stop_pct_var := Parsed 4\<rparr>"
  let ?g = "example_form\<lparr>open_notional_var := Parsed 0\<rparr>"
  let ?net = "example_feeds [example_candle 51 49 50]"
  have a: "atr_and_price ?f ?net 14 = Inr (1, 50)"
    by (simp add: atr_and_price_def example_form_def example_feeds_def example_candle_def)
  have s: "compute_stop_distance ?f 50 = Inr (2, 4)"
    by (simp add: compute_stop_distance_def example_form_def)
  have m: "median_hitting_time_bm 1 2 (real_of_int (bar_to_seconds (bar_var ?f)))
             = Inr (Finite 7200)"
    by (simp add: median_hitting_time_bm_def double_overflow_def bar_to_seconds_def
        example_form_def)
  from a s m loss_sizing [of ?f 14 100 ?net 50 1 2 4 "Finite 7200"]
    loss_sizing [of ?g 14 0 ?net]
  show ?thesis by (simp add: example_form_def)
qed

text \<open>With a custom ATR, lines 341 to 367 read the candles for the last close only.\<close>

lemma atr_and_price_custom:
  assumes "custom_atr_var f = Parsed a"
  shows "atr_and_price f net n =
     (case mode_var f of
        CEX \<Rightarrow> (case okx_candles net (max (n + 2) 50) of
                  None \<Rightarrow> Inl FeedError
                | Some cs \<Rightarrow> if cs = [] then Inl NoCandles else Inr (a, close (last cs)))
      | DEX \<Rightarrow> (case dex_price net of None \<Rightarrow> Inl FeedError | Some q \<Rightarrow> Inr (a, q)))"
  using assms by (simp add: atr_and_price_def split: mode.splits option.splits)

text \<open>
  Claim C8. When a custom ATR is given, \<open>on_calculate\<close> takes no ATR from the
  candles: the ATR of the result is the custom value, the hitting time of the
  result is the one computed with it as sigma, and no run fails with
  \<open>InsufficientData\<close>. A last price is
  still required: in CEX mode an empty candle feed fails with \<open>NoCandles\<close>. And
  two networks whose series end with the same close (CEX), or that give the same
  quote (DEX), give the same outcome.
\<close>

theorem custom_atr_bypasses_compute_atr:
  assumes "custom_atr_var f = Parsed a"
  shows "(on_calculate f net = Inr r \<longrightarrow>
            atr_value r = a
            \<and> median_hitting_time_bm a (stop_abs r) (real_of_int (bar_to_seconds (bar_var f)))
                = Inr (median_seconds r))
       \<and> on_calculate f net \<noteq> Inl InsufficientData
       \<and> (mode_var f = CEX \<and> atr_n_var f = Parsed n \<and> open_notional_var f = Parsed m \<and> 0 < m
            \<and> okx_candles net (max (n + 2) 50) = Some [] \<longrightarrow>
          on_calculate f net = Inl NoCandles)
       \<and> (mode_var f = CEX \<and> atr_n_var f = Parsed n
            \<and> okx_candles net (max (n + 2) 50) = Some cs \<and> cs \<noteq> []
            \<and> okx_candles net' (max (n + 2) 50) = Some cs' \<and> cs' \<noteq> []
            \<and> close (last cs) = close (last cs') \<longrightarrow>
          on_calculate f net = on_calculate f net')
       \<and> (mode_var f = DEX \<and> dex_price net = dex_price net' \<longrightarrow>
          on_calculate f net = on_calculate f net')"
proof (intro conjI impI)
  assume r: "on_calculate f net = Inr r"
  then obtain k where "atr_and_price f net k = Inr (atr_value r, last_close r)"
    and m: "median_hitting_time_bm (atr_value r) (stop_abs r)
           (real_of_int (bar_to_seconds (bar_var f))) = Inr (median_seconds r)"
    by (auto elim: on_calculate_Inr)
  then have "atr_value r = a"
    using assms by (auto simp: atr_and_price_custom split: mode.splits option.splits if_splits)
  with m show "atr_value r = a"
    and "median_hitting_time_bm a (stop_abs r) (real_of_int (bar_to_seconds (bar_var f)))
           = Inr (median_seconds r)"
    by simp_all
next
  have "atr_and_price f net k \<noteq> Inl InsufficientData" for k
    using assms by (simp add: atr_and_price_custom split: mode.splits option.splits)
  then show "on_calculate f net \<noteq> Inl InsufficientData"
    using compute_stop_distance_not_insufficient
    by (auto simp: on_calculate_def Let_def split: entry.splits sum.splits prod.splits
        dest: median_hitting_time_errors)
next
  assume "mode_var f = CEX \<and> atr_n_var f = Parsed n \<and> open_notional_var f = Parsed m \<and> 0 < m
            \<and> okx_candles net (max (n + 2) 50) = Some []"
  then show "on_calculate f net = Inl NoCandles"
    using assms by (simp add: on_calculate_def atr_and_price_custom)
next
  assume "mode_var f = CEX \<and> atr_n_var f = Parsed n
            \<and> okx_candles net (max (n + 2) 50) = Some cs \<and> cs \<noteq> []
            \<and> okx_candles net' (max (n + 2) 50) = Some cs' \<and> cs' \<noteq> []
            \<and> close (last cs) = close (last cs')"
  then have "atr_and_price f net n = atr_and_price f net' n" and "atr_n_var f = Parsed n"
    using assms by (simp_all add: atr_and_price_custom)
  then show "on_calculate f net = on_calculate f net'"
    by (simp add: on_calculate_def split: entry.splits)
next
  assume "mode_var f = DEX \<and> dex_price net = dex_price net'"
  then have "atr_and_price f net k = atr_and_price f net' k" for k
    using assms by (simp add: atr_and_price_custom)
  then show "on_calculate f net = on_calculate f net'"
    by (simp add: on_calculate_def split: entry.splits)
qed

text \<open>
  A custom ATR of 1, a stop of 5 percent, an amount of 100 and hourly bars: a
  single candle closing at 100 and a different, two-candle series closing at 100
  give the same result, with a hitting time of \<open>0.5 * 25 * 3600\<close> seconds.
\<close>

theorem custom_atr_bypasses_compute_atr_witness:
  "on_calculate example_form (example_feeds [example_candle 101 99 100])
     = Inr \<lparr>last_close = 100, atr_value = 1, stop_abs = 5, stop_pct = 5,
            position_base = 1, loss_quote = 5, median_seconds = Finite 45000\<rparr>
   \<and> on_calculate example_form (example_feeds []) = Inl NoCandles
   \<and> on_calculate example_form (example_feeds [example_candle 101 99 100])
       = on_calculate example_form
           (example_feeds [example_candle 7 3 4, example_candle 300 20 100])
   \<and> on_calculate (example_form\<lparr>mode_var := DEX\<rparr>)
        \<lparr>okx_candles = (\<lambda>limit. None), dex_price = Some 100\<rparr>
       = on_calculate (example_form\<lparr>mode_var := DEX\<rparr>)
           \<lparr>okx_candles = (\<lambda>limit. Some []), dex_price = Some 100\<rparr>"
proof -
  let ?net = "example_feeds [example_candle 101 99 100]"
  let ?net' = "example_feeds [example_candle 7 3 4, example_candle 300 20 100]"
  let ?r = "\<lparr>last_close = 100, atr_value = 1, stop_abs = 5, stop_pct = 5,
             position_base = 1, loss_quote = 5, median_seconds = Finite 45000\<rparr>"
  have c: "on_calculate example_form ?net = Inr ?r"
    by (simp add: eval_defs)
  have f: "custom_atr_var example_form = Parsed 1" "mode_var example_form = CEX"
    "atr_n_var example_form = Parsed 14" "open_notional_var example_form = Parsed 100"
    by (simp_all add: example_form_def)
  have g: "custom_atr_var (example_form\<lparr>mode_var := DEX\<rparr>) = Parsed 1"
    by (simp add: example_form_def)
  from c show ?thesis
    using custom_atr_bypasses_compute_atr
        [OF f(1), where net = "example_feeds []" and n = 14 and m = 100]
      custom_atr_bypasses_compute_atr
        [OF f(1), where net = ?net and net' = ?net' and n = 14
           and cs = "[example_candle 101 99 100]"
           and cs' = "[example_candle 7 3 4, example_candle 300 20 100]"]
      custom_atr_bypasses_compute_atr
        [OF g, where net = "\<lparr>okx_candles = (\<lambda>limit. None), dex_price = Some 100\<rparr>"
           and net' = "\<lparr>okx_candles = (\<lambda>limit. Some []), dex_price = Some 100\<rparr>"]
    by (simp add: f example_feeds_def example_candle_def)
qed

text \<open>
  Claim C10. A custom ATR that is zero or negative is accepted: with the period
  read, a positive amount, a last price other than zero (the close of the last
  candle of a non-empty feed in CEX mode, the quote in DEX mode) and a resolved
  stop, \<open>on_calculate\<close> returns, the ATR of its result is the given value, taken
  unchecked, and the hitting time is positive infinity.
\<close>

theorem nonpositive_custom_atr_accepted:
  assumes "a \<le> 0" and "custom_atr_var f = Parsed a"
    and "atr_n_var f = Parsed n" and "open_notional_var f = Parsed m" and "0 < m"
    and "(mode_var f = CEX \<and> okx_candles net (max (n + 2) 50) = Some cs \<and> cs \<noteq> []
            \<and> price = close (last cs))
         \<or> (mode_var f = DEX \<and> dex_price net = Some price)"
    and "price \<noteq> 0" and "compute_stop_distance f price = Inr (d, pc)"
  shows "on_calculate f net
           = Inr \<lparr>last_close = price, atr_value = a, stop_abs = d, stop_pct = pc,
                  position_base = m / price, loss_quote = m / price * d,
                  median_seconds = PosInf\<rparr>"
proof -
  have "atr_and_price f net n = Inr (a, price)"
    using assms(2,6) by (auto simp: atr_and_price_custom)
  moreover have "median_hitting_time_bm a d (real_of_int (bar_to_seconds (bar_var f))) = Inr PosInf"
    using assms(1) by (simp add: median_hitting_time_bm_def)
  ultimately show ?thesis
    using assms(3,4,5,7,8) by (simp add: on_calculate_def Let_def)
qed

text \<open>A custom ATR of \<open>- 1\<close>, and of 0 in DEX mode with a quote of 100.\<close>

theorem nonpositive_custom_atr_accepted_witness:
  "on_calculate (example_form\<lparr>custom_atr_var := Parsed (- 1)\<rparr>)
     (example_feeds [example_candle 101 99 100])
   = Inr \<lparr>last_close = 100, atr_value = - 1, stop_abs = 5, stop_pct = 5,
          position_base = 1, loss_quote = 5, median_seconds = PosInf\<rparr>
   \<and> on_calculate (example_form\<lparr>mode_var := DEX, custom_atr_var := Parsed 0\<rparr>)
       \<lparr>okx_candles = (\<lambda>limit. None), dex_price = Some 100\<rparr>
     = Inr \<lparr>last_close = 100, atr_value = 0, stop_abs = 5, stop_pct = 5,
            position_base = 1, loss_quote = 5, median_seconds = PosInf\<rparr>"
proof -
  let ?f = "example_form\<lparr>custom_atr_var := Parsed (- 1)\<rparr>"
  let ?g = "example_form\<lparr>mode_var := DEX, custom_atr_var := Parsed 0\<rparr>"
  let ?net = "example_feeds [example_candle 101 99 100]"
  let ?dex = "\<lparr>okx_candles = (\<lambda>limit. None), dex_price = Some 100\<rparr>"
  have s: "compute_stop_distance ?f 100 = Inr (5, 5)" "compute_stop_distance ?g 100 = Inr (5, 5)"
    by (simp_all add: compute_stop_distance_def example_form_def)
  show ?thesis
    using nonpositive_custom_atr_accepted
        [where a = "- 1" and f = ?f and n = 14 and m = 100 and net = ?net
           and cs = "[example_candle 101 99 100]" and price = 100 and d = 5 and pc = 5]
      nonpositive_custom_atr_accepted
        [where a = 0 and f = ?g and n = 14 and m = 100 and net = ?dex
           and price = 100 and d = 5 and pc = 5]
      s
    by (simp add: example_form_def example_feeds_def example_candle_def)
qed

end
